theory Spec2Isabelle
  imports Main "HOL-Library.Word"
begin

section \<open>Radio scheduler (nrf_802154_rsch.c): data model\<close>

text \<open>
  The precondition scheduler of the nRF 802.15.4 radio driver keeps its state in module-level
  variables. The embedding collects them in one record and passes it through every function.
  Calls into collaborators (clock, arbiter, timer scheduler, driver core) are appended to a call
  log, in program order. The model is sequential: one entry point runs to completion, a
  collaborator does not call back into the module before it returns, and the exclusive store of
  the mutex succeeds at its first attempt. Debug logging (\<open>nrf_802154_log\<close>) is left out.
\<close>

type_synonym u8 = "8 word"
type_synonym u32 = "32 word"

text \<open>
  The enumerations \<open>rsch_prio_t\<close> and \<open>rsch_prec_t\<close> are declared in a header that is not part
  of the sources at hand. Their values are natural numbers here, as the enumerators of a C
  enumeration are; the enumerators the module uses are given below.
\<close>

type_synonym rsch_prio_t = nat
type_synonym rsch_prec_t = nat

text \<open>
  Modelled from the spec: the enumerator \<open>RSCH_PRIO_IDLE\<close> of the missing declaration of
  \<open>rsch_prio_t\<close>. The spec describes the priority levels as a small totally ordered scale with
  a distinguished minimum, idle, so idle is the least level. The maximum level
  \<open>RSCH_PRIO_MAX\<close> is a parameter of the platform record below.
\<close>

definition RSCH_PRIO_IDLE :: rsch_prio_t where
  "RSCH_PRIO_IDLE = 0"

text \<open>
  Modelled from the spec: the enumerator \<open>RSCH_PREC_HFCLK\<close> of the missing declaration of
  \<open>rsch_prec_t\<close>. The spec names two preconditions, clock readiness and the arbiter's grant;
  the clock is the first of them.
\<close>

definition RSCH_PREC_HFCLK :: rsch_prec_t where
  "RSCH_PREC_HFCLK = 0"

text \<open>
  Modelled from the spec: the enumerator \<open>RSCH_PREC_RAAL\<close> of the missing declaration of
  \<open>rsch_prec_t\<close>, the arbiter's grant, the second of the two preconditions of the spec.
\<close>

definition RSCH_PREC_RAAL :: rsch_prec_t where
  "RSCH_PREC_RAAL = 1"

text \<open>
  Modelled from the spec: the enumerator \<open>RSCH_PREC_CNT\<close> of the missing declaration of
  \<open>rsch_prec_t\<close>, the number of preconditions (two in the spec) and the size of the approval
  array.
\<close>

definition RSCH_PREC_CNT :: rsch_prec_t where
  "RSCH_PREC_CNT = 2"

text \<open>The ramp-up time of the preconditions, in microseconds.\<close>

definition PREC_RAMP_UP_TIME :: u32 where
  "PREC_RAMP_UP_TIME = 300"

text \<open>
  What the module reads from its surroundings during one call: the maximum priority level, the
  timer scheduler's current time and granularity, and the scheduler's test whether the instant
  \<open>t0 + dt\<close> lies in the future of \<open>now\<close>. The functions of the module are parametric in all
  four.
\<close>

record rsch_platform =
  RSCH_PRIO_MAX :: rsch_prio_t
  nrf_802154_timer_sched_time_get :: u32
  nrf_802154_timer_sched_granularity_get :: u32
  nrf_802154_timer_sched_time_is_in_future :: "u32 \<Rightarrow> u32 \<Rightarrow> u32 \<Rightarrow> bool"

datatype timer_callback =
  NULL_callback
  | delayed_timeslot_prec_request_callback
  | delayed_timeslot_start_callback

record nrf_802154_timer_t =
  timer_t0 :: u32
  timer_dt :: u32
  timer_callback :: timer_callback

text \<open>The calls the module makes into its collaborators, as entries of the call log.\<close>

datatype rsch_call =
  nrf_raal_init
  | nrf_802154_priority_drop_hfclk_stop
  | nrf_802154_priority_drop_hfclk_stop_terminate
  | nrf_802154_clock_hfclk_start
  | nrf_raal_continuous_mode_enter
  | nrf_raal_continuous_mode_exit
  | nrf_802154_rsch_continuous_prio_changed rsch_prio_t
  | nrf_802154_rsch_delayed_timeslot_started
  | nrf_802154_rsch_delayed_timeslot_failed
  | nrf_802154_timer_sched_add nrf_802154_timer_t bool

datatype rsch_error = AssertionFailed | OutOfBounds

text \<open>
  The static variables of the module. \<open>timer_is_running\<close> is the timer scheduler's knowledge of
  \<open>m_timer\<close> (what \<open>nrf_802154_timer_sched_is_running\<close> answers); \<open>calls\<close> is the call log.
\<close>

record rsch_state =
  m_ntf_mutex :: u8
  m_ntf_mutex_monitor :: u8
  m_req_mutex :: u8
  m_req_mutex_monitor :: u8
  m_last_notified_prio :: rsch_prio_t
  m_approved_prios :: "rsch_prio_t list"
  m_requested_prio :: rsch_prio_t
  m_cont_mode_prio :: rsch_prio_t
  m_delayed_timeslot_prio :: rsch_prio_t
  m_delayed_timeslot_t0 :: u32
  m_delayed_timeslot_dt :: u32
  m_timer :: nrf_802154_timer_t
  timer_is_running :: bool
  calls :: "rsch_call list"

definition call :: "rsch_call \<Rightarrow> rsch_state \<Rightarrow> rsch_state" where
  "call c s = s\<lparr>calls := calls s @ [c]\<rparr>"

text \<open>
  The declared shape of the data: the approval array has \<open>RSCH_PREC_CNT\<close> entries and every
  entry is a level of the scale, at most \<open>RSCH_PRIO_MAX\<close>.
\<close>

definition approvals_wf :: "rsch_platform \<Rightarrow> rsch_prio_t list \<Rightarrow> bool" where
  "approvals_wf pf a \<longleftrightarrow> length a = RSCH_PREC_CNT \<and> list_all (\<lambda>p. p \<le> RSCH_PRIO_MAX pf) a"

section \<open>Lock-free retry mutex\<close>

text \<open>
  \<open>mutex_trylock\<close> takes the mutex byte and its monitor and returns whether the mutex was
  acquired together with the new values of both. A taken mutex increments the monitor (modulo
  256) and fails without waiting.
\<close>

definition mutex_trylock :: "u8 \<Rightarrow> u8 \<Rightarrow> bool \<times> u8 \<times> u8" where
  "mutex_trylock mutex monitor =
     (if mutex \<noteq> 0 then (False, mutex, monitor + 1) else (True, 1, monitor))"

definition mutex_unlock :: "u8 \<Rightarrow> u8" where
  "mutex_unlock mutex = 0"

definition req_mutex_trylock :: "rsch_state \<Rightarrow> bool \<times> rsch_state" where
  "req_mutex_trylock s =
     (case mutex_trylock (m_req_mutex s) (m_req_mutex_monitor s) of
        (acquired, mutex, monitor) \<Rightarrow>
          (acquired, s\<lparr>m_req_mutex := mutex, m_req_mutex_monitor := monitor\<rparr>))"

definition ntf_mutex_trylock :: "rsch_state \<Rightarrow> bool \<times> rsch_state" where
  "ntf_mutex_trylock s =
     (case mutex_trylock (m_ntf_mutex s) (m_ntf_mutex_monitor s) of
        (acquired, mutex, monitor) \<Rightarrow>
          (acquired, s\<lparr>m_ntf_mutex := mutex, m_ntf_mutex_monitor := monitor\<rparr>))"

section \<open>Priority aggregator\<close>

definition any_prec_should_be_requested_for_delayed_timeslot ::
    "rsch_platform \<Rightarrow> rsch_state \<Rightarrow> bool" where
  "any_prec_should_be_requested_for_delayed_timeslot pf s =
     (let now = nrf_802154_timer_sched_time_get pf;
          t0 = m_delayed_timeslot_t0 s;
          dt = m_delayed_timeslot_dt s - PREC_RAMP_UP_TIME -
                 nrf_802154_timer_sched_granularity_get pf
      in m_delayed_timeslot_prio s > RSCH_PRIO_IDLE \<and>
         \<not> nrf_802154_timer_sched_time_is_in_future pf now t0 dt)"

definition required_prio_lvl_get :: "rsch_platform \<Rightarrow> rsch_state \<Rightarrow> rsch_prio_t" where
  "required_prio_lvl_get pf s =
     (let result = RSCH_PRIO_IDLE;
          result = (if any_prec_should_be_requested_for_delayed_timeslot pf s
                    then m_delayed_timeslot_prio s else result);
          result = (if m_cont_mode_prio s > result then m_cont_mode_prio s else result)
      in result)"

text \<open>
  \<open>prec_approved_prio_set\<close>: the first assertion admits \<open>prec = RSCH_PREC_CNT\<close>. An access to
  the array outside its bounds is undefined in C; the model reports it as \<open>OutOfBounds\<close>.
\<close>

definition prec_approved_prio_set ::
    "rsch_prec_t \<Rightarrow> rsch_prio_t \<Rightarrow> rsch_state \<Rightarrow> rsch_error + rsch_state" where
  "prec_approved_prio_set prec prio s =
     (if \<not> prec \<le> RSCH_PREC_CNT then Inl AssertionFailed
      else if m_requested_prio s = RSCH_PRIO_IDLE \<and> prio \<noteq> RSCH_PRIO_IDLE then Inr s
      else if \<not> prec < length (m_approved_prios s) then Inl OutOfBounds
      else if \<not> (m_approved_prios s ! prec \<noteq> prio \<or> prio = RSCH_PRIO_IDLE)
        then Inl AssertionFailed
      else Inr (s\<lparr>m_approved_prios := (m_approved_prios s)[prec := prio]\<rparr>))"

text \<open>The loop of \<open>approved_prio_lvl_get\<close>, from index \<open>i\<close> with the running minimum.\<close>

function approved_prio_lvl_loop :: "rsch_state \<Rightarrow> nat \<Rightarrow> rsch_prio_t \<Rightarrow> rsch_prio_t" where
  "approved_prio_lvl_loop s i result =
     (if i < RSCH_PREC_CNT
      then approved_prio_lvl_loop s (i + 1)
             (if m_approved_prios s ! i < result then m_approved_prios s ! i else result)
      else result)"
  by pat_completeness auto
termination
  by (relation "measure (\<lambda>(s, i, result). RSCH_PREC_CNT - i)") auto

definition approved_prio_lvl_get :: "rsch_platform \<Rightarrow> rsch_state \<Rightarrow> rsch_prio_t" where
  "approved_prio_lvl_get pf s = approved_prio_lvl_loop s 0 (RSCH_PRIO_MAX pf)"

definition requested_prio_lvl_is_at_least :: "rsch_prio_t \<Rightarrow> rsch_state \<Rightarrow> bool" where
  "requested_prio_lvl_is_at_least prio s \<longleftrightarrow> m_requested_prio s \<ge> prio"

section \<open>Request driver\<close>

text \<open>
  The body of the critical section of \<open>all_prec_update\<close>, between taking the request mutex and
  releasing it. A failed assertion inside ends the program.
\<close>

definition all_prec_update_section :: "rsch_platform \<Rightarrow> rsch_state \<Rightarrow> rsch_error + rsch_state" where
  "all_prec_update_section pf s =
     (let prev_prio = m_requested_prio s;
          new_prio = required_prio_lvl_get pf s
      in if prev_prio \<noteq> new_prio
         then (let s1 = s\<lparr>m_requested_prio := new_prio\<rparr>
               in if new_prio = RSCH_PRIO_IDLE
                  then (case prec_approved_prio_set RSCH_PREC_HFCLK RSCH_PRIO_IDLE
                               (call nrf_802154_priority_drop_hfclk_stop s1) of
                          Inl e \<Rightarrow> Inl e
                        | Inr s2 \<Rightarrow>
                            prec_approved_prio_set RSCH_PREC_RAAL RSCH_PRIO_IDLE
                              (call nrf_raal_continuous_mode_exit s2))
                  else Inr (call nrf_raal_continuous_mode_enter
                             (call nrf_802154_clock_hfclk_start
                               (call nrf_802154_priority_drop_hfclk_stop_terminate s1))))
         else Inr s)"

text \<open>
  \<open>all_prec_update\<close>: try the mutex and give up when it is taken; otherwise run the section,
  release the mutex and run again when the monitor moved meanwhile.
\<close>

function all_prec_update :: "rsch_platform \<Rightarrow> rsch_state \<Rightarrow> rsch_error + rsch_state" where
  "all_prec_update pf s =
     (case req_mutex_trylock s of
        (False, s1) \<Rightarrow> Inr s1
      | (True, s1) \<Rightarrow>
          (let monitor = m_req_mutex_monitor s1
           in case all_prec_update_section pf s1 of
                Inl e \<Rightarrow> Inl e
              | Inr s2 \<Rightarrow>
                  (let s3 = s2\<lparr>m_req_mutex := mutex_unlock (m_req_mutex s2)\<rparr>
                   in if monitor \<noteq> m_req_mutex_monitor s3
                      then all_prec_update pf s3
                      else Inr s3)))"
  by pat_completeness auto
termination
  by (relation "{}")
     (auto simp: all_prec_update_section_def prec_approved_prio_set_def call_def Let_def
           split: if_splits sum.splits)

section \<open>Notifier\<close>

function notify_core :: "rsch_platform \<Rightarrow> rsch_state \<Rightarrow> rsch_state" where
  "notify_core pf s =
     (case ntf_mutex_trylock s of
        (False, s1) \<Rightarrow> s1
      | (True, s1) \<Rightarrow>
          (let temp_mon = m_ntf_mutex_monitor s1;
               approved_prio_lvl = approved_prio_lvl_get pf s1;
               s2 = (if m_cont_mode_prio s1 > RSCH_PRIO_IDLE \<and>
                        m_last_notified_prio s1 \<noteq> approved_prio_lvl
                     then call (nrf_802154_rsch_continuous_prio_changed approved_prio_lvl)
                            (s1\<lparr>m_last_notified_prio := approved_prio_lvl\<rparr>)
                     else s1);
               s3 = s2\<lparr>m_ntf_mutex := mutex_unlock (m_ntf_mutex s2)\<rparr>
           in if temp_mon \<noteq> m_ntf_mutex_monitor s3 then notify_core pf s3 else s3))"
  by pat_completeness auto
termination
  by (relation "{}") (auto simp: call_def split: if_splits)

section \<open>Delayed-timeslot sequencer\<close>

text \<open>
  Modelled from the spec: the timer scheduler is a collaborator outside the sources at hand. Its
  \<open>schedule_once\<close> operation is logged with the contents of \<open>m_timer\<close> at the call and the
  rounding flag, and marks the timer as running. \<open>p_context\<close> is always \<open>NULL\<close> and is left out
  of the timer record.
\<close>

definition timer_sched_add :: "bool \<Rightarrow> rsch_state \<Rightarrow> rsch_state" where
  "timer_sched_add round_up s =
     call (nrf_802154_timer_sched_add (m_timer s) round_up) (s\<lparr>timer_is_running := True\<rparr>)"

text \<open>The instant a timer is armed for.\<close>

definition timer_target :: "nrf_802154_timer_t \<Rightarrow> u32" where
  "timer_target t = timer_t0 t + timer_dt t"

text \<open>
  \<open>delayed_timeslot_start\<close>, statement by statement. A control point names the statement
  that runs next and carries the local \<open>req_prio_lvl\<close> while it is live:
  \<^item> \<open>At_entry\<close>: before \<open>req_prio_lvl = m_delayed_timeslot_prio\<close>;
  \<^item> \<open>At_reset\<close>: before \<open>m_delayed_timeslot_prio = RSCH_PRIO_IDLE\<close>;
  \<^item> \<open>At_decide\<close>: before the test \<open>approved_prio_lvl_get() >= req_prio_lvl\<close>;
  \<^item> \<open>At_started\<close> and \<open>At_failed\<close>: before the call of the one or the other callback;
  \<^item> \<open>At_return\<close>: the handler is done.
\<close>

datatype delayed_timeslot_start_pc =
  At_entry
  | At_reset rsch_prio_t
  | At_decide rsch_prio_t
  | At_started
  | At_failed
  | At_return

fun delayed_timeslot_start_step ::
    "rsch_platform \<Rightarrow> delayed_timeslot_start_pc \<times> rsch_state
       \<Rightarrow> delayed_timeslot_start_pc \<times> rsch_state" where
  "delayed_timeslot_start_step pf (At_entry, s) = (At_reset (m_delayed_timeslot_prio s), s)"
| "delayed_timeslot_start_step pf (At_reset req_prio_lvl, s) =
     (At_decide req_prio_lvl, s\<lparr>m_delayed_timeslot_prio := RSCH_PRIO_IDLE\<rparr>)"
| "delayed_timeslot_start_step pf (At_decide req_prio_lvl, s) =
     (if approved_prio_lvl_get pf s \<ge> req_prio_lvl then At_started else At_failed, s)"
| "delayed_timeslot_start_step pf (At_started, s) =
     (At_return, call nrf_802154_rsch_delayed_timeslot_started s)"
| "delayed_timeslot_start_step pf (At_failed, s) =
     (At_return, call nrf_802154_rsch_delayed_timeslot_failed s)"
| "delayed_timeslot_start_step pf (At_return, s) = (At_return, s)"

text \<open>The number of statements still to run from a control point.\<close>

fun delayed_timeslot_start_left :: "delayed_timeslot_start_pc \<Rightarrow> nat" where
  "delayed_timeslot_start_left At_entry = 4"
| "delayed_timeslot_start_left (At_reset req_prio_lvl) = 3"
| "delayed_timeslot_start_left (At_decide req_prio_lvl) = 2"
| "delayed_timeslot_start_left At_started = 1"
| "delayed_timeslot_start_left At_failed = 1"
| "delayed_timeslot_start_left At_return = 0"

text \<open>
  The run of the handler from a control point and a state: the list of the control points and
  states it passes, in program order, up to and with \<open>At_return\<close>.
\<close>

function delayed_timeslot_start_run ::
    "rsch_platform \<Rightarrow> delayed_timeslot_start_pc \<times> rsch_state
       \<Rightarrow> (delayed_timeslot_start_pc \<times> rsch_state) list" where
  "delayed_timeslot_start_run pf c =
     (if fst c = At_return then [c]
      else c # delayed_timeslot_start_run pf (delayed_timeslot_start_step pf c))"
  by pat_completeness auto
termination
proof (relation "measure (\<lambda>(pf, c). delayed_timeslot_start_left (fst c))")
  show "wf (measure (\<lambda>(pf, c). delayed_timeslot_start_left (fst c)))"
    by simp
next
  fix pf :: rsch_platform and c :: "delayed_timeslot_start_pc \<times> rsch_state"
  assume "fst c \<noteq> At_return"
  then show "((pf, delayed_timeslot_start_step pf c), pf, c)
               \<in> measure (\<lambda>(pf, c). delayed_timeslot_start_left (fst c))"
    by (cases c, cases "fst c") auto
qed

text \<open>The handler as a function of the state: the state its run ends in.\<close>

definition delayed_timeslot_start :: "rsch_platform \<Rightarrow> rsch_state \<Rightarrow> rsch_state" where
  "delayed_timeslot_start pf s = snd (last (delayed_timeslot_start_run pf (At_entry, s)))"

definition delayed_timeslot_prec_request ::
    "rsch_platform \<Rightarrow> rsch_state \<Rightarrow> rsch_error + rsch_state" where
  "delayed_timeslot_prec_request pf s =
     (case all_prec_update pf s of
        Inl e \<Rightarrow> Inl e
      | Inr s1 \<Rightarrow>
          Inr (timer_sched_add True
                 (s1\<lparr>m_timer := (m_timer s1)\<lparr>timer_t0 := m_delayed_timeslot_t0 s1,
                                               timer_dt := m_delayed_timeslot_dt s1,
                                               timer_callback := delayed_timeslot_start_callback\<rparr>\<rparr>)))"

section \<open>Public interface\<close>

function rsch_init_loop :: "rsch_state \<Rightarrow> nat \<Rightarrow> rsch_state" where
  "rsch_init_loop s i =
     (if i < RSCH_PREC_CNT
      then rsch_init_loop (s\<lparr>m_approved_prios := (m_approved_prios s)[i := RSCH_PRIO_IDLE]\<rparr>)
             (i + 1)
      else s)"
  by pat_completeness auto
termination
  by (relation "measure (\<lambda>(s, i). RSCH_PREC_CNT - i)") auto

definition nrf_802154_rsch_init :: "rsch_state \<Rightarrow> rsch_state" where
  "nrf_802154_rsch_init s =
     rsch_init_loop
       ((call nrf_raal_init s)
          \<lparr>m_ntf_mutex := 0,
           m_req_mutex := 0,
           m_last_notified_prio := RSCH_PRIO_IDLE,
           m_cont_mode_prio := RSCH_PRIO_IDLE,
           m_delayed_timeslot_prio := RSCH_PRIO_IDLE,
           m_requested_prio := RSCH_PRIO_IDLE\<rparr>) 0"

text \<open>The static storage of the module before \<open>nrf_802154_rsch_init\<close>: C zero-initialises it.\<close>

definition static_storage :: rsch_state where
  "static_storage =
     \<lparr>m_ntf_mutex = 0, m_ntf_mutex_monitor = 0, m_req_mutex = 0, m_req_mutex_monitor = 0,
      m_last_notified_prio = 0, m_approved_prios = replicate RSCH_PREC_CNT 0,
      m_requested_prio = 0, m_cont_mode_prio = 0, m_delayed_timeslot_prio = 0,
      m_delayed_timeslot_t0 = 0, m_delayed_timeslot_dt = 0,
      m_timer = \<lparr>timer_t0 = 0, timer_dt = 0, timer_callback = NULL_callback\<rparr>,
      timer_is_running = False, calls = []\<rparr>"

definition nrf_802154_rsch_continuous_mode_priority_set ::
    "rsch_platform \<Rightarrow> rsch_prio_t \<Rightarrow> rsch_state \<Rightarrow> rsch_error + rsch_state" where
  "nrf_802154_rsch_continuous_mode_priority_set pf prio s =
     (case all_prec_update pf (s\<lparr>m_cont_mode_prio := prio\<rparr>) of
        Inl e \<Rightarrow> Inl e
      | Inr s1 \<Rightarrow>
          (let s2 = notify_core pf s1
           in Inr (if prio = RSCH_PRIO_IDLE
                   then s2\<lparr>m_last_notified_prio := RSCH_PRIO_IDLE\<rparr>
                   else s2)))"

text \<open>
  \<open>nrf_802154_rsch_delayed_timeslot_request\<close> returns its result together with the new state;
  each of its three assertions ends the program when it fails.
\<close>

definition nrf_802154_rsch_delayed_timeslot_request ::
    "rsch_platform \<Rightarrow> u32 \<Rightarrow> u32 \<Rightarrow> u32 \<Rightarrow> rsch_prio_t \<Rightarrow> rsch_state
       \<Rightarrow> rsch_error + (bool \<times> rsch_state)" where
  "nrf_802154_rsch_delayed_timeslot_request pf t0 dt length' prio s =
     (let now = nrf_802154_timer_sched_time_get pf;
          req_dt = dt - PREC_RAMP_UP_TIME
      in if timer_is_running s then Inl AssertionFailed
         else if \<not> m_delayed_timeslot_prio s = RSCH_PRIO_IDLE then Inl AssertionFailed
         else if \<not> prio \<noteq> RSCH_PRIO_IDLE then Inl AssertionFailed
         else if nrf_802154_timer_sched_time_is_in_future pf now t0 req_dt
         then Inr (True,
                   timer_sched_add False
                     (s\<lparr>m_delayed_timeslot_prio := prio,
                        m_delayed_timeslot_t0 := t0,
                        m_delayed_timeslot_dt := dt,
                        m_timer := (m_timer s)\<lparr>timer_t0 := t0,
                                                timer_dt := req_dt,
                                                timer_callback :=
                                                  delayed_timeslot_prec_request_callback\<rparr>\<rparr>))
         else if requested_prio_lvl_is_at_least (RSCH_PRIO_MAX pf) s \<and>
                 nrf_802154_timer_sched_time_is_in_future pf now t0 dt
         then Inr (True,
                   timer_sched_add True
                     (s\<lparr>m_delayed_timeslot_prio := prio,
                        m_delayed_timeslot_t0 := t0,
                        m_delayed_timeslot_dt := dt,
                        m_timer := (m_timer s)\<lparr>timer_t0 := t0,
                                                timer_dt := dt,
                                                timer_callback :=
                                                  delayed_timeslot_start_callback\<rparr>\<rparr>))
         else Inr (False, s))"

definition nrf_802154_rsch_prec_is_approved ::
    "rsch_prec_t \<Rightarrow> rsch_prio_t \<Rightarrow> rsch_state \<Rightarrow> rsch_error + bool" where
  "nrf_802154_rsch_prec_is_approved prec prio s =
     (if \<not> prec < RSCH_PREC_CNT then Inl AssertionFailed
      else if \<not> prec < length (m_approved_prios s) then Inl OutOfBounds
      else Inr (m_approved_prios s ! prec \<ge> prio))"

subsection \<open>Handlers called by the collaborators\<close>

definition nrf_raal_timeslot_started :: "rsch_platform \<Rightarrow> rsch_state \<Rightarrow> rsch_error + rsch_state" where
  "nrf_raal_timeslot_started pf s =
     (case prec_approved_prio_set RSCH_PREC_RAAL (RSCH_PRIO_MAX pf) s of
        Inl e \<Rightarrow> Inl e
      | Inr s1 \<Rightarrow> Inr (notify_core pf s1))"

definition nrf_raal_timeslot_ended :: "rsch_platform \<Rightarrow> rsch_state \<Rightarrow> rsch_error + rsch_state" where
  "nrf_raal_timeslot_ended pf s =
     (case prec_approved_prio_set RSCH_PREC_RAAL RSCH_PRIO_IDLE s of
        Inl e \<Rightarrow> Inl e
      | Inr s1 \<Rightarrow> Inr (notify_core pf s1))"

definition nrf_802154_clock_hfclk_ready :: "rsch_platform \<Rightarrow> rsch_state \<Rightarrow> rsch_error + rsch_state" where
  "nrf_802154_clock_hfclk_ready pf s =
     (case prec_approved_prio_set RSCH_PREC_HFCLK (RSCH_PRIO_MAX pf) s of
        Inl e \<Rightarrow> Inl e
      | Inr s1 \<Rightarrow> Inr (notify_core pf s1))"

subsection \<open>Sequences of calls\<close>



section \<open>A scenario platform\<close>

text \<open>
  Modelled from the spec: \<open>nrf_802154_timer_sched_time_is_in_future\<close> belongs to the timer
  scheduler, which is not part of the sources at hand. The spec describes it as the query whether
  the instant \<open>base + delta\<close> is in the future relative to \<open>now\<close>, that is, whether \<open>now\<close> is
  strictly before it.
\<close>

definition timer_sched_time_is_in_future :: "u32 \<Rightarrow> u32 \<Rightarrow> u32 \<Rightarrow> bool" where
  "timer_sched_time_is_in_future now t0 dt \<longleftrightarrow> now < t0 + dt"

text \<open>
  Modelled from the spec: the platform of the delayed-timeslot scenario among the spec's testable
  properties, read at time \<open>now\<close>, with a timer granularity of 10 and the future test above. The
  spec leaves the size of the priority scale open; the scenario platform puts its maximum level
  at 4.
\<close>

definition scenario_platform :: "u32 \<Rightarrow> rsch_platform" where
  "scenario_platform now =
     \<lparr>RSCH_PRIO_MAX = 4,
      nrf_802154_timer_sched_time_get = now,
      nrf_802154_timer_sched_granularity_get = 10,
      nrf_802154_timer_sched_time_is_in_future = timer_sched_time_is_in_future\<rparr>"

text \<open>
  The state the scenario's request leaves behind when it is made right after initialisation:
  the request is recorded and the pre-request timer is armed with base 1000 and delta 200.
\<close>

definition scenario_armed :: rsch_state where
  "scenario_armed =
     static_storage
       \<lparr>m_delayed_timeslot_prio := 4,
        m_delayed_timeslot_t0 := 1000,
        m_delayed_timeslot_dt := 500,
        m_timer := \<lparr>timer_t0 = 1000, timer_dt = 200,
                    timer_callback = delayed_timeslot_prec_request_callback\<rparr>,
        timer_is_running := True,
        calls := [nrf_raal_init,
                  nrf_802154_timer_sched_add
                    \<lparr>timer_t0 = 1000, timer_dt = 200,
                     timer_callback = delayed_timeslot_prec_request_callback\<rparr> False]\<rparr>"

section \<open>Basic facts\<close>

text \<open>
  The equations of the loops are recursive without a constructor pattern; they are unfolded by
  hand, one step at a time.
\<close>

declare approved_prio_lvl_loop.simps [simp del]
declare all_prec_update.simps [simp del]
declare notify_core.simps [simp del]
declare rsch_init_loop.simps [simp del]
declare delayed_timeslot_start_run.simps [simp del]

subsection \<open>The approval loop\<close>

lemma approved_prio_lvl_loop_fold:
  "i \<le> RSCH_PREC_CNT \<Longrightarrow> length (m_approved_prios s) = RSCH_PREC_CNT \<Longrightarrow>
   approved_prio_lvl_loop s i r = fold min (drop i (m_approved_prios s)) r"
proof (induction s i r rule: approved_prio_lvl_loop.induct)
  case (1 s i result)
  show ?case
  proof (cases "i < RSCH_PREC_CNT")
    case True
    then have d: "drop i (m_approved_prios s) = m_approved_prios s ! i # drop (i + 1) (m_approved_prios s)"
      using "1.prems" by (simp add: Cons_nth_drop_Suc)
    have "approved_prio_lvl_loop s i result =
          approved_prio_lvl_loop s (i + 1)
            (if m_approved_prios s ! i < result then m_approved_prios s ! i else result)"
      using True by (subst approved_prio_lvl_loop.simps) simp
    also have "\<dots> = fold min (drop (i + 1) (m_approved_prios s))
            (if m_approved_prios s ! i < result then m_approved_prios s ! i else result)"
      using True "1.prems" by (intro "1.IH") simp_all
    also have "\<dots> = fold min (drop i (m_approved_prios s)) result"
      by (subst d) (simp add: min_def)
    finally show ?thesis .
  next
    case False
    then show ?thesis using "1.prems"
      by (subst approved_prio_lvl_loop.simps) simp
  qed
qed

lemma approved_prio_lvl_get_Min:
  "length (m_approved_prios s) = RSCH_PREC_CNT \<Longrightarrow>
   approved_prio_lvl_get pf s = Min (insert (RSCH_PRIO_MAX pf) (set (m_approved_prios s)))"
  by (simp add: approved_prio_lvl_get_def approved_prio_lvl_loop_fold Min.set_eq_fold [symmetric])

lemma approved_prio_lvl_loop_array:
  "m_approved_prios s' = m_approved_prios s \<Longrightarrow>
   approved_prio_lvl_loop s' i r = approved_prio_lvl_loop s i r"
proof (induction s i r rule: approved_prio_lvl_loop.induct)
  case (1 s i result)
  show ?case
  proof (cases "i < RSCH_PREC_CNT")
    case True
    have "approved_prio_lvl_loop s' i result =
          approved_prio_lvl_loop s' (i + 1)
            (if m_approved_prios s ! i < result then m_approved_prios s ! i else result)"
      using True "1.prems" by (subst approved_prio_lvl_loop.simps) simp
    also have "\<dots> = approved_prio_lvl_loop s (i + 1)
            (if m_approved_prios s ! i < result then m_approved_prios s ! i else result)"
      using True "1.prems" by (rule "1.IH")
    also have "\<dots> = approved_prio_lvl_loop s i result"
      using True by (subst (2) approved_prio_lvl_loop.simps) simp
    finally show ?thesis .
  next
    case False
    then show ?thesis
      by (subst (1 2) approved_prio_lvl_loop.simps) simp
  qed
qed

lemma approved_prio_lvl_get_array:
  "m_approved_prios s' = m_approved_prios s \<Longrightarrow>
   approved_prio_lvl_get pf s' = approved_prio_lvl_get pf s"
  unfolding approved_prio_lvl_get_def by (rule approved_prio_lvl_loop_array)

lemma approved_prio_lvl_get_frame [simp]:
  "approved_prio_lvl_get pf (s\<lparr>m_ntf_mutex := x0\<rparr>) = approved_prio_lvl_get pf s"
  "approved_prio_lvl_get pf (s\<lparr>m_ntf_mutex_monitor := x1\<rparr>) = approved_prio_lvl_get pf s"
  "approved_prio_lvl_get pf (s\<lparr>m_req_mutex := x2\<rparr>) = approved_prio_lvl_get pf s"
  "approved_prio_lvl_get pf (s\<lparr>m_req_mutex_monitor := x3\<rparr>) = approved_prio_lvl_get pf s"
  "approved_prio_lvl_get pf (s\<lparr>m_last_notified_prio := x4\<rparr>) = approved_prio_lvl_get pf s"
  "approved_prio_lvl_get pf (s\<lparr>m_requested_prio := x5\<rparr>) = approved_prio_lvl_get pf s"
  "approved_prio_lvl_get pf (s\<lparr>m_cont_mode_prio := x6\<rparr>) = approved_prio_lvl_get pf s"
  "approved_prio_lvl_get pf (s\<lparr>m_delayed_timeslot_prio := x7\<rparr>) = approved_prio_lvl_get pf s"
  "approved_prio_lvl_get pf (s\<lparr>m_delayed_timeslot_t0 := x8\<rparr>) = approved_prio_lvl_get pf s"
  "approved_prio_lvl_get pf (s\<lparr>m_delayed_timeslot_dt := x9\<rparr>) = approved_prio_lvl_get pf s"
  "approved_prio_lvl_get pf (s\<lparr>m_timer := x10\<rparr>) = approved_prio_lvl_get pf s"
  "approved_prio_lvl_get pf (s\<lparr>timer_is_running := x11\<rparr>) = approved_prio_lvl_get pf s"
  "approved_prio_lvl_get pf (s\<lparr>calls := x12\<rparr>) = approved_prio_lvl_get pf s"
  "approved_prio_lvl_get pf (call c s) = approved_prio_lvl_get pf s"
  by (rule approved_prio_lvl_get_array, simp add: call_def)+


lemma Min_approvals:
  assumes "approvals_wf pf a"
  shows "Min (insert (RSCH_PRIO_MAX pf) (set a)) = Min (set a)"
proof -
  from assms have ne: "set a \<noteq> {}" and le: "list_all (\<lambda>p. p \<le> RSCH_PRIO_MAX pf) a"
    by (auto simp: approvals_wf_def RSCH_PREC_CNT_def)
  from ne have "Min (set a) \<in> set a"
    by (intro Min_in) simp_all
  with le have "Min (set a) \<le> RSCH_PRIO_MAX pf"
    by (simp add: list_all_iff)
  with ne show ?thesis by (simp add: min_absorb2)
qed

subsection \<open>The required level depends on the two demands only\<close>

lemma required_prio_lvl_get_frame [simp]:
  "required_prio_lvl_get pf (s\<lparr>m_req_mutex := x\<rparr>) = required_prio_lvl_get pf s"
  "required_prio_lvl_get pf (s\<lparr>m_req_mutex_monitor := y\<rparr>) = required_prio_lvl_get pf s"
  by (simp_all add: required_prio_lvl_get_def Let_def
        any_prec_should_be_requested_for_delayed_timeslot_def)

lemma required_prio_lvl_get_frame2 [simp]:
  "required_prio_lvl_get pf (s\<lparr>m_requested_prio := a\<rparr>) = required_prio_lvl_get pf s"
  "required_prio_lvl_get pf (s\<lparr>m_approved_prios := b\<rparr>) = required_prio_lvl_get pf s"
  "required_prio_lvl_get pf (s\<lparr>calls := c\<rparr>) = required_prio_lvl_get pf s"
  "required_prio_lvl_get pf (s\<lparr>m_last_notified_prio := d\<rparr>) = required_prio_lvl_get pf s"
  "required_prio_lvl_get pf (s\<lparr>m_ntf_mutex_monitor := e\<rparr>) = required_prio_lvl_get pf s"
  by (simp_all add: required_prio_lvl_get_def Let_def
        any_prec_should_be_requested_for_delayed_timeslot_def)

lemma required_prio_lvl_get_frame3 [simp]:
  "required_prio_lvl_get pf (call c s) = required_prio_lvl_get pf s"
  by (simp add: call_def)


subsection \<open>The retry loops run their section once\<close>

text \<open>
  Nothing inside a critical section touches the monitor of its mutex, so in a run without
  preemption the loop condition fails after the first pass.
\<close>

lemma all_prec_update_section_monitor:
  "all_prec_update_section pf s = Inr s' \<Longrightarrow>
   m_req_mutex_monitor s' = m_req_mutex_monitor s \<and> m_req_mutex s' = m_req_mutex s"
  by (auto simp: all_prec_update_section_def prec_approved_prio_set_def call_def Let_def
           split: if_splits sum.splits)

lemma all_prec_update_unfold:
  "all_prec_update pf s =
     (if m_req_mutex s \<noteq> 0
      then Inr (s\<lparr>m_req_mutex_monitor := m_req_mutex_monitor s + 1\<rparr>)
      else case all_prec_update_section pf (s\<lparr>m_req_mutex := 1\<rparr>) of
             Inl e \<Rightarrow> Inl e
           | Inr s2 \<Rightarrow> Inr (s2\<lparr>m_req_mutex := 0\<rparr>))"
  by (subst all_prec_update.simps)
     (auto simp: req_mutex_trylock_def mutex_trylock_def mutex_unlock_def Let_def
           dest: all_prec_update_section_monitor split: sum.splits)

lemma notify_core_unfold:
  "notify_core pf s =
     (if m_ntf_mutex s \<noteq> 0
      then s\<lparr>m_ntf_mutex_monitor := m_ntf_mutex_monitor s + 1\<rparr>
      else if m_cont_mode_prio s > RSCH_PRIO_IDLE \<and>
              m_last_notified_prio s \<noteq> approved_prio_lvl_get pf s
      then call (nrf_802154_rsch_continuous_prio_changed (approved_prio_lvl_get pf s))
             (s\<lparr>m_last_notified_prio := approved_prio_lvl_get pf s\<rparr>)
      else s)"
  apply (subst notify_core.simps)
  apply (auto simp: ntf_mutex_trylock_def mutex_trylock_def mutex_unlock_def Let_def call_def)
  done

lemma all_prec_update_section_result:
  assumes "length (m_approved_prios s) = RSCH_PREC_CNT"
  shows "all_prec_update_section pf s =
     Inr (if required_prio_lvl_get pf s = m_requested_prio s then s
          else if required_prio_lvl_get pf s = RSCH_PRIO_IDLE
          then s\<lparr>m_requested_prio := RSCH_PRIO_IDLE,
                 m_approved_prios :=
                   (m_approved_prios s)[RSCH_PREC_HFCLK := RSCH_PRIO_IDLE,
                                        RSCH_PREC_RAAL := RSCH_PRIO_IDLE],
                 calls := calls s @ [nrf_802154_priority_drop_hfclk_stop,
                                     nrf_raal_continuous_mode_exit]\<rparr>
          else s\<lparr>m_requested_prio := required_prio_lvl_get pf s,
                 calls := calls s @ [nrf_802154_priority_drop_hfclk_stop_terminate,
                                     nrf_802154_clock_hfclk_start,
                                     nrf_raal_continuous_mode_enter]\<rparr>)"
  using assms
  by (simp add: all_prec_update_section_def prec_approved_prio_set_def call_def Let_def
        RSCH_PREC_HFCLK_def RSCH_PREC_RAAL_def RSCH_PREC_CNT_def)

lemma all_prec_update_result:
  assumes "length (m_approved_prios s) = RSCH_PREC_CNT"
  shows "all_prec_update pf s =
     Inr (if m_req_mutex s \<noteq> 0 then s\<lparr>m_req_mutex_monitor := m_req_mutex_monitor s + 1\<rparr>
          else if required_prio_lvl_get pf s = m_requested_prio s then s
          else if required_prio_lvl_get pf s = RSCH_PRIO_IDLE
          then s\<lparr>m_requested_prio := RSCH_PRIO_IDLE,
                 m_approved_prios :=
                   (m_approved_prios s)[RSCH_PREC_HFCLK := RSCH_PRIO_IDLE,
                                        RSCH_PREC_RAAL := RSCH_PRIO_IDLE],
                 calls := calls s @ [nrf_802154_priority_drop_hfclk_stop,
                                     nrf_raal_continuous_mode_exit]\<rparr>
          else s\<lparr>m_requested_prio := required_prio_lvl_get pf s,
                 calls := calls s @ [nrf_802154_priority_drop_hfclk_stop_terminate,
                                     nrf_802154_clock_hfclk_start,
                                     nrf_raal_continuous_mode_enter]\<rparr>)"
  using assms by (simp add: all_prec_update_unfold all_prec_update_section_result)

lemma notify_core_approvals [simp]:
  "m_approved_prios (notify_core pf s) = m_approved_prios s"
  by (simp add: notify_core_unfold call_def)

subsection \<open>The run of the start handler\<close>

lemma delayed_timeslot_start_run_entry:
  "delayed_timeslot_start_run pf (At_entry, s) =
     [(At_entry, s),
      (At_reset (m_delayed_timeslot_prio s), s),
      (At_decide (m_delayed_timeslot_prio s), s\<lparr>m_delayed_timeslot_prio := RSCH_PRIO_IDLE\<rparr>),
      (if approved_prio_lvl_get pf s \<ge> m_delayed_timeslot_prio s then At_started else At_failed,
       s\<lparr>m_delayed_timeslot_prio := RSCH_PRIO_IDLE\<rparr>),
      (At_return,
       call (if approved_prio_lvl_get pf s \<ge> m_delayed_timeslot_prio s
             then nrf_802154_rsch_delayed_timeslot_started
             else nrf_802154_rsch_delayed_timeslot_failed)
         (s\<lparr>m_delayed_timeslot_prio := RSCH_PRIO_IDLE\<rparr>))]"
  by (simp add: delayed_timeslot_start_run.simps)

lemma delayed_timeslot_start_result:
  "delayed_timeslot_start pf s =
     call (if approved_prio_lvl_get pf s \<ge> m_delayed_timeslot_prio s
           then nrf_802154_rsch_delayed_timeslot_started
           else nrf_802154_rsch_delayed_timeslot_failed)
       (s\<lparr>m_delayed_timeslot_prio := RSCH_PRIO_IDLE\<rparr>)"
  by (simp add: delayed_timeslot_start_def delayed_timeslot_start_run_entry)

lemma approved_prio_lvl_get_wf:
  assumes "approvals_wf pf (m_approved_prios s)"
  shows "approved_prio_lvl_get pf s = Min (set (m_approved_prios s))"
proof -
  from assms have "length (m_approved_prios s) = RSCH_PREC_CNT"
    by (simp add: approvals_wf_def)
  then have "approved_prio_lvl_get pf s =
             Min (insert (RSCH_PRIO_MAX pf) (set (m_approved_prios s)))"
    by (rule approved_prio_lvl_get_Min)
  with assms show ?thesis by (simp add: Min_approvals)
qed

subsection \<open>Initialisation\<close>

lemma replicate_two:
  "replicate 2 x = [x, x]"
  by (simp add: eval_nat_numeral)

lemma rsch_init_static_storage:
  "nrf_802154_rsch_init static_storage = static_storage\<lparr>calls := [nrf_raal_init]\<rparr>"
  by (simp add: nrf_802154_rsch_init_def rsch_init_loop.simps static_storage_def call_def
        RSCH_PREC_CNT_def RSCH_PRIO_IDLE_def replicate_two)

subsection \<open>The shape of the approval array is kept\<close>

text \<open>
  Initialisation establishes the declared shape of the approval array and every function of the
  module keeps it, so the shape is no restriction on the states the module can reach.
\<close>

lemma list_all_update:
  "list_all P xs \<Longrightarrow> P x \<Longrightarrow> list_all P (xs[i := x])"
  by (induction xs arbitrary: i) (auto split: nat.splits)

lemma approvals_wf_update:
  "approvals_wf pf a \<Longrightarrow> prio \<le> RSCH_PRIO_MAX pf \<Longrightarrow> approvals_wf pf (a[prec := prio])"
  by (simp add: approvals_wf_def list_all_update)

lemma approvals_wf_init:
  "approvals_wf pf (m_approved_prios (nrf_802154_rsch_init static_storage))"
  by (simp add: rsch_init_static_storage)
     (simp add: static_storage_def approvals_wf_def RSCH_PREC_CNT_def replicate_two)

lemma prec_approved_prio_set_wf:
  assumes "approvals_wf pf (m_approved_prios s)" "prio \<le> RSCH_PRIO_MAX pf"
    and "prec_approved_prio_set prec prio s = Inr s'"
  shows "approvals_wf pf (m_approved_prios s')"
  using assms
  by (auto simp: prec_approved_prio_set_def approvals_wf_update split: if_splits)

lemma all_prec_update_wf:
  assumes "approvals_wf pf (m_approved_prios s)" "all_prec_update pf s = Inr s'"
  shows "approvals_wf pf (m_approved_prios s')"
proof -
  from assms(1) have len: "length (m_approved_prios s) = RSCH_PREC_CNT"
    by (simp add: approvals_wf_def)
  have idle: "RSCH_PRIO_IDLE \<le> RSCH_PRIO_MAX pf"
    by (simp add: RSCH_PRIO_IDLE_def)
  show ?thesis
    using assms idle unfolding all_prec_update_result [OF len]
    by (auto simp: approvals_wf_update split: if_splits)
qed

lemma handlers_wf:
  assumes "approvals_wf pf (m_approved_prios s)"
  shows "nrf_raal_timeslot_started pf s = Inr s' \<Longrightarrow> approvals_wf pf (m_approved_prios s')"
    and "nrf_raal_timeslot_ended pf s = Inr s' \<Longrightarrow> approvals_wf pf (m_approved_prios s')"
    and "nrf_802154_clock_hfclk_ready pf s = Inr s' \<Longrightarrow> approvals_wf pf (m_approved_prios s')"
    and "nrf_802154_rsch_continuous_mode_priority_set pf prio s = Inr s' \<Longrightarrow>
         approvals_wf pf (m_approved_prios s')"
    and "delayed_timeslot_prec_request pf s = Inr s' \<Longrightarrow> approvals_wf pf (m_approved_prios s')"
    and "nrf_802154_rsch_delayed_timeslot_request pf t0 dt len prio s = Inr (r, s') \<Longrightarrow>
         approvals_wf pf (m_approved_prios s')"
    and "approvals_wf pf (m_approved_prios (delayed_timeslot_start pf s))"
proof -
  have idle: "RSCH_PRIO_IDLE \<le> RSCH_PRIO_MAX pf"
    by (simp add: RSCH_PRIO_IDLE_def)
  show "nrf_raal_timeslot_started pf s = Inr s' \<Longrightarrow> approvals_wf pf (m_approved_prios s')"
    using assms prec_approved_prio_set_wf [of pf s "RSCH_PRIO_MAX pf" RSCH_PREC_RAAL]
    by (auto simp: nrf_raal_timeslot_started_def split: sum.splits)
  show "nrf_raal_timeslot_ended pf s = Inr s' \<Longrightarrow> approvals_wf pf (m_approved_prios s')"
    using assms idle prec_approved_prio_set_wf [of pf s RSCH_PRIO_IDLE RSCH_PREC_RAAL]
    by (auto simp: nrf_raal_timeslot_ended_def split: sum.splits)
  show "nrf_802154_clock_hfclk_ready pf s = Inr s' \<Longrightarrow> approvals_wf pf (m_approved_prios s')"
    using assms prec_approved_prio_set_wf [of pf s "RSCH_PRIO_MAX pf" RSCH_PREC_HFCLK]
    by (auto simp: nrf_802154_clock_hfclk_ready_def split: sum.splits)
  show "nrf_802154_rsch_continuous_mode_priority_set pf prio s = Inr s' \<Longrightarrow>
        approvals_wf pf (m_approved_prios s')"
    using assms all_prec_update_wf [of pf "s\<lparr>m_cont_mode_prio := prio\<rparr>"]
    by (auto simp: nrf_802154_rsch_continuous_mode_priority_set_def Let_def
          split: sum.splits if_splits)
  show "delayed_timeslot_prec_request pf s = Inr s' \<Longrightarrow> approvals_wf pf (m_approved_prios s')"
    using assms all_prec_update_wf [of pf s]
    by (auto simp: delayed_timeslot_prec_request_def timer_sched_add_def call_def
          split: sum.splits)
  show "nrf_802154_rsch_delayed_timeslot_request pf t0 dt len prio s = Inr (r, s') \<Longrightarrow>
        approvals_wf pf (m_approved_prios s')"
    using assms
    by (auto simp: nrf_802154_rsch_delayed_timeslot_request_def timer_sched_add_def call_def
          Let_def split: if_splits)
  show "approvals_wf pf (m_approved_prios (delayed_timeslot_start pf s))"
    using assms by (simp add: delayed_timeslot_start_result call_def)
qed

subsection \<open>Setting the continuous-mode priority\<close>

lemma continuous_mode_priority_set_post:
  assumes "length (m_approved_prios s) = RSCH_PREC_CNT"
  shows "\<exists>s1. nrf_802154_rsch_continuous_mode_priority_set pf prio s = Inr s1 \<and>
           m_cont_mode_prio s1 = prio \<and>
           length (m_approved_prios s1) = RSCH_PREC_CNT \<and>
           m_req_mutex s1 = m_req_mutex s \<and> m_ntf_mutex s1 = m_ntf_mutex s \<and>
           m_delayed_timeslot_prio s1 = m_delayed_timeslot_prio s \<and>
           m_delayed_timeslot_t0 s1 = m_delayed_timeslot_t0 s \<and>
           m_delayed_timeslot_dt s1 = m_delayed_timeslot_dt s \<and>
           (m_req_mutex s = 0 \<longrightarrow> m_requested_prio s1 = required_prio_lvl_get pf s1) \<and>
           (m_ntf_mutex s = 0 \<and> prio \<noteq> RSCH_PRIO_IDLE \<longrightarrow>
              m_last_notified_prio s1 = approved_prio_lvl_get pf s1) \<and>
           (prio = RSCH_PRIO_IDLE \<longrightarrow> m_last_notified_prio s1 = RSCH_PRIO_IDLE)"
proof -
  let ?s0 = "s\<lparr>m_cont_mode_prio := prio\<rparr>"
  from assms have len0: "length (m_approved_prios ?s0) = RSCH_PREC_CNT" by simp
  obtain sA where A: "all_prec_update pf ?s0 = Inr sA"
    using all_prec_update_result [OF len0] by blast
  have sA: "m_cont_mode_prio sA = prio" "length (m_approved_prios sA) = RSCH_PREC_CNT"
    "m_req_mutex sA = m_req_mutex s" "m_ntf_mutex sA = m_ntf_mutex s"
    "m_delayed_timeslot_prio sA = m_delayed_timeslot_prio s"
    "m_delayed_timeslot_t0 sA = m_delayed_timeslot_t0 s"
    "m_delayed_timeslot_dt sA = m_delayed_timeslot_dt s"
    "m_req_mutex s = 0 \<longrightarrow> m_requested_prio sA = required_prio_lvl_get pf sA"
    using A assms unfolding all_prec_update_result [OF len0]
    by (auto split: if_splits)
  let ?sB = "notify_core pf sA"
  have sB: "m_cont_mode_prio ?sB = prio" "length (m_approved_prios ?sB) = RSCH_PREC_CNT"
    "m_req_mutex ?sB = m_req_mutex s" "m_ntf_mutex ?sB = m_ntf_mutex s"
    "m_delayed_timeslot_prio ?sB = m_delayed_timeslot_prio s"
    "m_delayed_timeslot_t0 ?sB = m_delayed_timeslot_t0 s"
    "m_delayed_timeslot_dt ?sB = m_delayed_timeslot_dt s"
    "m_req_mutex s = 0 \<longrightarrow> m_requested_prio ?sB = required_prio_lvl_get pf ?sB"
    "m_ntf_mutex s = 0 \<and> prio \<noteq> RSCH_PRIO_IDLE \<longrightarrow>
       m_last_notified_prio ?sB = approved_prio_lvl_get pf ?sB"
    using sA by (auto simp: notify_core_unfold call_def RSCH_PRIO_IDLE_def)
  show ?thesis
    using A sB
    by (auto simp: nrf_802154_rsch_continuous_mode_priority_set_def Let_def)
qed


lemma prec_approved_prio_set_in_bounds:
  "prec < RSCH_PREC_CNT \<Longrightarrow> length (m_approved_prios s) = RSCH_PREC_CNT \<Longrightarrow>
   prec_approved_prio_set prec prio s \<noteq> Inl OutOfBounds"
  by (simp add: prec_approved_prio_set_def)

lemma scenario_request:
  "nrf_802154_rsch_delayed_timeslot_request (scenario_platform 100) 1000 500 200
     (RSCH_PRIO_MAX (scenario_platform 100)) (nrf_802154_rsch_init static_storage) =
   Inr (True, scenario_armed)"
  unfolding rsch_init_static_storage
  by (simp add: nrf_802154_rsch_delayed_timeslot_request_def
        scenario_platform_def timer_sched_time_is_in_future_def PREC_RAMP_UP_TIME_def
        timer_sched_add_def call_def scenario_armed_def static_storage_def RSCH_PRIO_IDLE_def)

section \<open>The approved level\<close>

text \<open>
  C5: whatever the rest of the state holds, \<open>approved_prio_lvl_get\<close> returns the minimum of the
  approved levels in the approval array. The result is computed from the array alone, so it
  is never stale. The hypothesis states the declared shape of the array: \<open>RSCH_PREC_CNT\<close>
  entries, each a level of the scale.
\<close>

theorem approved_prio_lvl_get_minimum:
  assumes "approvals_wf pf a"
  shows "approved_prio_lvl_get pf (s\<lparr>m_approved_prios := a\<rparr>) = Min (set a)"
proof -
  from assms have "length (m_approved_prios (s\<lparr>m_approved_prios := a\<rparr>)) = RSCH_PREC_CNT"
    by (simp add: approvals_wf_def)
  then have "approved_prio_lvl_get pf (s\<lparr>m_approved_prios := a\<rparr>) =
             Min (insert (RSCH_PRIO_MAX pf) (set a))"
    by (simp add: approved_prio_lvl_get_Min)
  with assms show ?thesis by (simp add: Min_approvals)
qed

theorem approved_prio_lvl_get_minimum_witness:
  "approvals_wf (scenario_platform 0) [4, 2] \<and>
   approved_prio_lvl_get (scenario_platform 0) (static_storage\<lparr>m_approved_prios := [4, 2]\<rparr>) = 2"
  using approved_prio_lvl_get_minimum [of "scenario_platform 0" "[4, 2]" static_storage]
  by (simp add: approvals_wf_def scenario_platform_def RSCH_PREC_CNT_def)

section \<open>Recording an approval\<close>

text \<open>
  C8: for every precondition, a non-idle approval that arrives while the requested level is idle
  is dropped and the whole state stays as it was; an idle approval is recorded for that
  precondition whatever the requested level is.
\<close>

theorem prec_approved_prio_set_drop_or_record:
  "prec < RSCH_PREC_CNT \<Longrightarrow> length (m_approved_prios s) = RSCH_PREC_CNT \<Longrightarrow>
   (m_requested_prio s = RSCH_PRIO_IDLE \<and> prio \<noteq> RSCH_PRIO_IDLE \<longrightarrow>
      prec_approved_prio_set prec prio s = Inr s) \<and>
   prec_approved_prio_set prec RSCH_PRIO_IDLE s =
     Inr (s\<lparr>m_approved_prios := (m_approved_prios s)[prec := RSCH_PRIO_IDLE]\<rparr>)"
  by (simp add: prec_approved_prio_set_def)

theorem prec_approved_prio_set_drop_or_record_witness:
  "RSCH_PREC_RAAL < RSCH_PREC_CNT \<and>
   length (m_approved_prios static_storage) = RSCH_PREC_CNT \<and>
   m_requested_prio static_storage = RSCH_PRIO_IDLE \<and> (4::nat) \<noteq> RSCH_PRIO_IDLE \<and>
   prec_approved_prio_set RSCH_PREC_RAAL 4 static_storage = Inr static_storage \<and>
   prec_approved_prio_set RSCH_PREC_RAAL RSCH_PRIO_IDLE
     (static_storage\<lparr>m_approved_prios := [4, 4], m_requested_prio := 4\<rparr>) =
     Inr (static_storage\<lparr>m_approved_prios := [4, 0], m_requested_prio := 4\<rparr>)"
  using prec_approved_prio_set_drop_or_record [of RSCH_PREC_RAAL static_storage 4]
    prec_approved_prio_set_drop_or_record
      [of RSCH_PREC_RAAL "static_storage\<lparr>m_approved_prios := [4, 4], m_requested_prio := 4\<rparr>" 4]
  by (simp add: static_storage_def RSCH_PREC_RAAL_def RSCH_PREC_CNT_def RSCH_PRIO_IDLE_def)

text \<open>
  C10: the bounds assertion of \<open>prec_approved_prio_set\<close> lets the index \<open>RSCH_PREC_CNT\<close> through,
  and the array access behind it is then out of bounds. The module itself passes only
  \<open>RSCH_PREC_HFCLK\<close> and \<open>RSCH_PREC_RAAL\<close>, both below \<open>RSCH_PREC_CNT\<close>, so none of its functions
  that record an approval ever accesses the array out of bounds.
\<close>

theorem prec_index_within_bounds:
  "RSCH_PREC_HFCLK < RSCH_PREC_CNT \<and> RSCH_PREC_RAAL < RSCH_PREC_CNT \<and>
   (length (m_approved_prios s) = RSCH_PREC_CNT \<longrightarrow>
      (\<not> (m_requested_prio s = RSCH_PRIO_IDLE \<and> prio \<noteq> RSCH_PRIO_IDLE) \<longrightarrow>
         prec_approved_prio_set RSCH_PREC_CNT prio s = Inl OutOfBounds) \<and>
      all_prec_update pf s \<noteq> Inl OutOfBounds \<and>
      delayed_timeslot_prec_request pf s \<noteq> Inl OutOfBounds \<and>
      nrf_802154_rsch_continuous_mode_priority_set pf prio s \<noteq> Inl OutOfBounds \<and>
      nrf_raal_timeslot_started pf s \<noteq> Inl OutOfBounds \<and>
      nrf_raal_timeslot_ended pf s \<noteq> Inl OutOfBounds \<and>
      nrf_802154_clock_hfclk_ready pf s \<noteq> Inl OutOfBounds)"
proof -
  have idx: "RSCH_PREC_HFCLK < RSCH_PREC_CNT" "RSCH_PREC_RAAL < RSCH_PREC_CNT"
    by (simp_all add: RSCH_PREC_HFCLK_def RSCH_PREC_RAAL_def RSCH_PREC_CNT_def)
  {
    assume len: "length (m_approved_prios s) = RSCH_PREC_CNT"
    have 1: "\<not> (m_requested_prio s = RSCH_PRIO_IDLE \<and> prio \<noteq> RSCH_PRIO_IDLE) \<longrightarrow>
         prec_approved_prio_set RSCH_PREC_CNT prio s = Inl OutOfBounds"
      using len by (auto simp: prec_approved_prio_set_def)
    have 2: "all_prec_update pf s \<noteq> Inl OutOfBounds"
      using len by (simp add: all_prec_update_result)
    have 3: "delayed_timeslot_prec_request pf s \<noteq> Inl OutOfBounds"
      using len by (simp add: delayed_timeslot_prec_request_def all_prec_update_result)
    have 4: "nrf_802154_rsch_continuous_mode_priority_set pf prio s \<noteq> Inl OutOfBounds"
      using continuous_mode_priority_set_post [OF len, of pf prio] by auto
    have 5: "nrf_raal_timeslot_started pf s \<noteq> Inl OutOfBounds"
      using prec_approved_prio_set_in_bounds [OF idx(2) len, of "RSCH_PRIO_MAX pf"]
      by (auto simp: nrf_raal_timeslot_started_def split: sum.splits)
    have 6: "nrf_raal_timeslot_ended pf s \<noteq> Inl OutOfBounds"
      using prec_approved_prio_set_in_bounds [OF idx(2) len, of RSCH_PRIO_IDLE]
      by (auto simp: nrf_raal_timeslot_ended_def split: sum.splits)
    have 7: "nrf_802154_clock_hfclk_ready pf s \<noteq> Inl OutOfBounds"
      using prec_approved_prio_set_in_bounds [OF idx(1) len, of "RSCH_PRIO_MAX pf"]
      by (auto simp: nrf_802154_clock_hfclk_ready_def split: sum.splits)
    note 1 2 3 4 5 6 7
  }
  with idx show ?thesis by blast
qed

theorem prec_index_within_bounds_witness:
  "length (m_approved_prios static_storage) = RSCH_PREC_CNT \<and>
   \<not> (m_requested_prio static_storage = RSCH_PRIO_IDLE \<and> RSCH_PRIO_IDLE \<noteq> RSCH_PRIO_IDLE) \<and>
   prec_approved_prio_set RSCH_PREC_CNT RSCH_PRIO_IDLE static_storage = Inl OutOfBounds \<and>
   prec_approved_prio_set (RSCH_PREC_CNT + 1) RSCH_PRIO_IDLE static_storage =
     Inl AssertionFailed \<and>
   all_prec_update (scenario_platform 0) static_storage = Inr static_storage \<and>
   nrf_raal_timeslot_ended (scenario_platform 0) static_storage = Inr static_storage \<and>
   nrf_802154_clock_hfclk_ready (scenario_platform 0) static_storage = Inr static_storage"
  using prec_index_within_bounds [of static_storage RSCH_PRIO_IDLE "scenario_platform 0"]
  by (simp add: static_storage_def scenario_platform_def RSCH_PRIO_IDLE_def
        RSCH_PREC_CNT_def RSCH_PREC_RAAL_def RSCH_PREC_HFCLK_def
        prec_approved_prio_set_def all_prec_update_result notify_core_unfold
        nrf_raal_timeslot_ended_def nrf_802154_clock_hfclk_ready_def
        required_prio_lvl_get_def any_prec_should_be_requested_for_delayed_timeslot_def
        replicate_two)

section \<open>The required level\<close>

text \<open>
  C4: \<open>required_prio_lvl_get\<close> is the maximum of the continuous-mode priority and the effective
  delayed-timeslot priority. The latter is the recorded priority when it is not idle and the
  pre-request point \<open>t0 + (dt - ramp-up - granularity)\<close> is not in the future, and idle
  otherwise. With neither demand in force the result is idle.
\<close>

theorem required_prio_lvl_get_max:
  "required_prio_lvl_get pf s =
     max (m_cont_mode_prio s)
       (if m_delayed_timeslot_prio s \<noteq> RSCH_PRIO_IDLE \<and>
           \<not> nrf_802154_timer_sched_time_is_in_future pf
                (nrf_802154_timer_sched_time_get pf) (m_delayed_timeslot_t0 s)
                (m_delayed_timeslot_dt s - PREC_RAMP_UP_TIME -
                   nrf_802154_timer_sched_granularity_get pf)
        then m_delayed_timeslot_prio s else RSCH_PRIO_IDLE) \<and>
   (m_cont_mode_prio s = RSCH_PRIO_IDLE \<and>
    \<not> any_prec_should_be_requested_for_delayed_timeslot pf s \<longrightarrow>
      required_prio_lvl_get pf s = RSCH_PRIO_IDLE)"
  by (auto simp: required_prio_lvl_get_def any_prec_should_be_requested_for_delayed_timeslot_def
        Let_def RSCH_PRIO_IDLE_def max_def)

theorem required_prio_lvl_get_max_witness:
  "required_prio_lvl_get (scenario_platform 1190)
     (static_storage\<lparr>m_cont_mode_prio := 2, m_delayed_timeslot_prio := 4,
        m_delayed_timeslot_t0 := 1000, m_delayed_timeslot_dt := 500\<rparr>) = 4 \<and>
   required_prio_lvl_get (scenario_platform 1189)
     (static_storage\<lparr>m_cont_mode_prio := 2, m_delayed_timeslot_prio := 4,
        m_delayed_timeslot_t0 := 1000, m_delayed_timeslot_dt := 500\<rparr>) = 2 \<and>
   m_cont_mode_prio static_storage = RSCH_PRIO_IDLE \<and>
   \<not> any_prec_should_be_requested_for_delayed_timeslot (scenario_platform 1190) static_storage \<and>
   required_prio_lvl_get (scenario_platform 1190) static_storage = RSCH_PRIO_IDLE"
  using required_prio_lvl_get_max [of "scenario_platform 1190"
      "static_storage\<lparr>m_cont_mode_prio := 2, m_delayed_timeslot_prio := 4,
        m_delayed_timeslot_t0 := 1000, m_delayed_timeslot_dt := 500\<rparr>"]
    required_prio_lvl_get_max [of "scenario_platform 1189"
      "static_storage\<lparr>m_cont_mode_prio := 2, m_delayed_timeslot_prio := 4,
        m_delayed_timeslot_t0 := 1000, m_delayed_timeslot_dt := 500\<rparr>"]
    required_prio_lvl_get_max [of "scenario_platform 1190" static_storage]
  by (simp add: static_storage_def scenario_platform_def timer_sched_time_is_in_future_def
        any_prec_should_be_requested_for_delayed_timeslot_def PREC_RAMP_UP_TIME_def
        RSCH_PRIO_IDLE_def)

section \<open>The request driver\<close>

text \<open>
  C6: when \<open>all_prec_update\<close> gets the request mutex and the required level differs from the
  requested one, a change to idle stops the clock and leaves the arbiter's continuous mode, in
  this order, and marks both approvals idle; a change to a non-idle level terminates a pending
  clock stop, starts the clock and enters the arbiter's continuous mode. Either way the new level
  becomes the requested level, and nothing else changes.
\<close>

theorem all_prec_update_level_change:
  assumes "m_req_mutex s = 0"
    and "length (m_approved_prios s) = RSCH_PREC_CNT"
    and "required_prio_lvl_get pf s \<noteq> m_requested_prio s"
  shows "all_prec_update pf s =
     Inr (if required_prio_lvl_get pf s = RSCH_PRIO_IDLE
          then s\<lparr>m_requested_prio := RSCH_PRIO_IDLE,
                 m_approved_prios :=
                   (m_approved_prios s)[RSCH_PREC_HFCLK := RSCH_PRIO_IDLE,
                                        RSCH_PREC_RAAL := RSCH_PRIO_IDLE],
                 calls := calls s @ [nrf_802154_priority_drop_hfclk_stop,
                                     nrf_raal_continuous_mode_exit]\<rparr>
          else s\<lparr>m_requested_prio := required_prio_lvl_get pf s,
                 calls := calls s @ [nrf_802154_priority_drop_hfclk_stop_terminate,
                                     nrf_802154_clock_hfclk_start,
                                     nrf_raal_continuous_mode_enter]\<rparr>)"
  using assms by (simp add: all_prec_update_unfold all_prec_update_section_result)

theorem all_prec_update_level_change_witness:
  "m_req_mutex (static_storage\<lparr>m_requested_prio := 4, m_approved_prios := [4, 4]\<rparr>) = 0 \<and>
   length (m_approved_prios (static_storage\<lparr>m_requested_prio := 4, m_approved_prios := [4, 4]\<rparr>)) =
     RSCH_PREC_CNT \<and>
   required_prio_lvl_get (scenario_platform 0)
     (static_storage\<lparr>m_requested_prio := 4, m_approved_prios := [4, 4]\<rparr>) \<noteq> 4 \<and>
   all_prec_update (scenario_platform 0)
     (static_storage\<lparr>m_requested_prio := 4, m_approved_prios := [4, 4]\<rparr>) =
     Inr (static_storage\<lparr>m_requested_prio := 0, m_approved_prios := [0, 0],
            calls := [nrf_802154_priority_drop_hfclk_stop, nrf_raal_continuous_mode_exit]\<rparr>) \<and>
   required_prio_lvl_get (scenario_platform 0) (static_storage\<lparr>m_cont_mode_prio := 2\<rparr>) \<noteq> 0 \<and>
   all_prec_update (scenario_platform 0) (static_storage\<lparr>m_cont_mode_prio := 2\<rparr>) =
     Inr (static_storage\<lparr>m_cont_mode_prio := 2, m_requested_prio := 2,
            calls := [nrf_802154_priority_drop_hfclk_stop_terminate,
                      nrf_802154_clock_hfclk_start, nrf_raal_continuous_mode_enter]\<rparr>)"
  using all_prec_update_level_change
      [of "static_storage\<lparr>m_requested_prio := 4, m_approved_prios := [4, 4]\<rparr>"
          "scenario_platform 0"]
    all_prec_update_level_change
      [of "static_storage\<lparr>m_cont_mode_prio := 2\<rparr>" "scenario_platform 0"]
  by (simp add: static_storage_def scenario_platform_def RSCH_PRIO_IDLE_def
        required_prio_lvl_get_def any_prec_should_be_requested_for_delayed_timeslot_def
        RSCH_PREC_CNT_def RSCH_PREC_HFCLK_def RSCH_PREC_RAAL_def)




section \<open>The notifier\<close>




section \<open>The delayed-timeslot sequencer\<close>

text \<open>
  C2: when the start timer fires, \<open>delayed_timeslot_start\<close> runs five control points in this
  order: it reads the recorded priority, resets it to idle, and only then decides the outcome,
  on the state so reset, by comparing the minimum of the approved levels of all preconditions
  with the priority it read. The run passes through exactly one of \<open>At_started\<close> and
  \<open>At_failed\<close>, so exactly one of the two callbacks is logged:
  \<open>nrf_802154_rsch_delayed_timeslot_started\<close> when that minimum is at least the recorded
  priority, \<open>nrf_802154_rsch_delayed_timeslot_failed\<close> otherwise. Afterwards the
  delayed-timeslot priority is idle. The hypothesis is the declared shape of the approval
  array.
\<close>

theorem delayed_timeslot_start_outcome:
  assumes "approvals_wf pf (m_approved_prios s)"
  shows "delayed_timeslot_start_run pf (At_entry, s) =
     [(At_entry, s),
      (At_reset (m_delayed_timeslot_prio s), s),
      (At_decide (m_delayed_timeslot_prio s), s\<lparr>m_delayed_timeslot_prio := RSCH_PRIO_IDLE\<rparr>),
      (if Min (set (m_approved_prios s)) \<ge> m_delayed_timeslot_prio s
       then At_started else At_failed,
       s\<lparr>m_delayed_timeslot_prio := RSCH_PRIO_IDLE\<rparr>),
      (At_return,
       call (if Min (set (m_approved_prios s)) \<ge> m_delayed_timeslot_prio s
             then nrf_802154_rsch_delayed_timeslot_started
             else nrf_802154_rsch_delayed_timeslot_failed)
         (s\<lparr>m_delayed_timeslot_prio := RSCH_PRIO_IDLE\<rparr>))] \<and>
   delayed_timeslot_start pf s =
     call (if Min (set (m_approved_prios s)) \<ge> m_delayed_timeslot_prio s
           then nrf_802154_rsch_delayed_timeslot_started
           else nrf_802154_rsch_delayed_timeslot_failed)
       (s\<lparr>m_delayed_timeslot_prio := RSCH_PRIO_IDLE\<rparr>) \<and>
   m_delayed_timeslot_prio (delayed_timeslot_start pf s) = RSCH_PRIO_IDLE \<and>
   calls (delayed_timeslot_start pf s) =
     calls s @ [if Min (set (m_approved_prios s)) \<ge> m_delayed_timeslot_prio s
                then nrf_802154_rsch_delayed_timeslot_started
                else nrf_802154_rsch_delayed_timeslot_failed]"
  using approved_prio_lvl_get_wf [OF assms]
  by (simp add: delayed_timeslot_start_run_entry delayed_timeslot_start_result call_def)

theorem delayed_timeslot_start_outcome_witness:
  "approvals_wf (scenario_platform 1500)
     (m_approved_prios (scenario_armed\<lparr>m_approved_prios := [4, 4]\<rparr>)) \<and>
   delayed_timeslot_start_run (scenario_platform 1500)
       (At_entry, scenario_armed\<lparr>m_approved_prios := [4, 4]\<rparr>) =
     [(At_entry, scenario_armed\<lparr>m_approved_prios := [4, 4]\<rparr>),
      (At_reset 4, scenario_armed\<lparr>m_approved_prios := [4, 4]\<rparr>),
      (At_decide 4,
       scenario_armed\<lparr>m_approved_prios := [4, 4], m_delayed_timeslot_prio := 0\<rparr>),
      (At_started,
       scenario_armed\<lparr>m_approved_prios := [4, 4], m_delayed_timeslot_prio := 0\<rparr>),
      (At_return,
       call nrf_802154_rsch_delayed_timeslot_started
         (scenario_armed\<lparr>m_approved_prios := [4, 4], m_delayed_timeslot_prio := 0\<rparr>))] \<and>
   approvals_wf (scenario_platform 1500)
     (m_approved_prios (scenario_armed\<lparr>m_approved_prios := [4, 0]\<rparr>)) \<and>
   delayed_timeslot_start (scenario_platform 1500)
       (scenario_armed\<lparr>m_approved_prios := [4, 0]\<rparr>) =
     call nrf_802154_rsch_delayed_timeslot_failed
       (scenario_armed\<lparr>m_approved_prios := [4, 0], m_delayed_timeslot_prio := 0\<rparr>)"
  using delayed_timeslot_start_outcome
      [of "scenario_platform 1500" "scenario_armed\<lparr>m_approved_prios := [4, 4]\<rparr>"]
    delayed_timeslot_start_outcome
      [of "scenario_platform 1500" "scenario_armed\<lparr>m_approved_prios := [4, 0]\<rparr>"]
  by (simp add: approvals_wf_def scenario_platform_def scenario_armed_def static_storage_def
        RSCH_PREC_CNT_def RSCH_PRIO_IDLE_def)

text \<open>
  C1: a request with a non-idle priority and no delayed timeslot outstanding. When now is before
  \<open>t0 + (dt - ramp-up)\<close> the request is recorded, the pre-request timer is armed for that
  instant and the result is true. Otherwise, when the requested level is at least the maximum
  and now is before \<open>t0 + dt\<close>, the request is recorded, only the start timer is armed, for
  \<open>t0 + dt\<close>, and the result is true. In every other case the result is false and the state is
  the one before the call.
\<close>

theorem delayed_timeslot_request_cases:
  assumes "prio \<noteq> RSCH_PRIO_IDLE"
    and "m_delayed_timeslot_prio s = RSCH_PRIO_IDLE"
    and "\<not> timer_is_running s"
  shows "nrf_802154_rsch_delayed_timeslot_request pf t0 dt len prio s =
     (if nrf_802154_timer_sched_time_is_in_future pf (nrf_802154_timer_sched_time_get pf)
           t0 (dt - PREC_RAMP_UP_TIME)
      then Inr (True,
             s\<lparr>m_delayed_timeslot_prio := prio,
                m_delayed_timeslot_t0 := t0,
                m_delayed_timeslot_dt := dt,
                m_timer := (m_timer s)\<lparr>timer_t0 := t0, timer_dt := dt - PREC_RAMP_UP_TIME,
                             timer_callback := delayed_timeslot_prec_request_callback\<rparr>,
                timer_is_running := True,
                calls := calls s @
                  [nrf_802154_timer_sched_add
                     ((m_timer s)\<lparr>timer_t0 := t0, timer_dt := dt - PREC_RAMP_UP_TIME,
                        timer_callback := delayed_timeslot_prec_request_callback\<rparr>) False]\<rparr>)
      else if m_requested_prio s \<ge> RSCH_PRIO_MAX pf \<and>
              nrf_802154_timer_sched_time_is_in_future pf (nrf_802154_timer_sched_time_get pf)
                t0 dt
      then Inr (True,
             s\<lparr>m_delayed_timeslot_prio := prio,
                m_delayed_timeslot_t0 := t0,
                m_delayed_timeslot_dt := dt,
                m_timer := (m_timer s)\<lparr>timer_t0 := t0, timer_dt := dt,
                             timer_callback := delayed_timeslot_start_callback\<rparr>,
                timer_is_running := True,
                calls := calls s @
                  [nrf_802154_timer_sched_add
                     ((m_timer s)\<lparr>timer_t0 := t0, timer_dt := dt,
                        timer_callback := delayed_timeslot_start_callback\<rparr>) True]\<rparr>)
      else Inr (False, s))"
  using assms
  by (simp add: nrf_802154_rsch_delayed_timeslot_request_def Let_def timer_sched_add_def
        call_def requested_prio_lvl_is_at_least_def)

theorem delayed_timeslot_request_cases_witness:
  "(4::nat) \<noteq> RSCH_PRIO_IDLE \<and>
   m_delayed_timeslot_prio static_storage = RSCH_PRIO_IDLE \<and>
   \<not> timer_is_running static_storage \<and>
   nrf_802154_rsch_delayed_timeslot_request (scenario_platform 100) 1000 500 200 4
       static_storage =
     Inr (True,
       static_storage
         \<lparr>m_delayed_timeslot_prio := 4, m_delayed_timeslot_t0 := 1000,
          m_delayed_timeslot_dt := 500,
          m_timer := \<lparr>timer_t0 = 1000, timer_dt = 200,
                      timer_callback = delayed_timeslot_prec_request_callback\<rparr>,
          timer_is_running := True,
          calls := [nrf_802154_timer_sched_add
                      \<lparr>timer_t0 = 1000, timer_dt = 200,
                       timer_callback = delayed_timeslot_prec_request_callback\<rparr> False]\<rparr>) \<and>
   nrf_802154_rsch_delayed_timeslot_request (scenario_platform 1300) 1000 500 200 4
       (static_storage\<lparr>m_requested_prio := 4\<rparr>) =
     Inr (True,
       static_storage
         \<lparr>m_requested_prio := 4,
          m_delayed_timeslot_prio := 4, m_delayed_timeslot_t0 := 1000,
          m_delayed_timeslot_dt := 500,
          m_timer := \<lparr>timer_t0 = 1000, timer_dt = 500,
                      timer_callback = delayed_timeslot_start_callback\<rparr>,
          timer_is_running := True,
          calls := [nrf_802154_timer_sched_add
                      \<lparr>timer_t0 = 1000, timer_dt = 500,
                       timer_callback = delayed_timeslot_start_callback\<rparr> True]\<rparr>) \<and>
   nrf_802154_rsch_delayed_timeslot_request (scenario_platform 1300) 1000 500 200 4
       static_storage =
     Inr (False, static_storage)"
  using delayed_timeslot_request_cases
      [of 4 static_storage "scenario_platform 100" 1000 500 200]
    delayed_timeslot_request_cases
      [of 4 "static_storage\<lparr>m_requested_prio := 4\<rparr>" "scenario_platform 1300" 1000 500 200]
    delayed_timeslot_request_cases
      [of 4 static_storage "scenario_platform 1300" 1000 500 200]
  by (simp add: static_storage_def scenario_platform_def timer_sched_time_is_in_future_def
        PREC_RAMP_UP_TIME_def RSCH_PRIO_IDLE_def)

text \<open>
  C9, as the spec states it: in the scenario (\<open>t0 = 1000\<close>, \<open>dt = 500\<close>, length 200, maximum
  priority, now 100, ramp-up 300, granularity 10) the pre-request timer would be armed for 1190.
  The request succeeds, but the timer it arms is not set for 1190.
\<close>

theorem scenario_timer_not_at_1190:
  "nrf_802154_rsch_delayed_timeslot_request (scenario_platform 100) 1000 500 200
     (RSCH_PRIO_MAX (scenario_platform 100)) (nrf_802154_rsch_init static_storage) =
   Inr (True, scenario_armed) \<and>
   timer_target (m_timer scenario_armed) \<noteq> 1190"
  by (simp add: scenario_request) (simp add: scenario_armed_def timer_target_def)

text \<open>
  C9, amended: in the scenario the request succeeds because now, 100, is before the pre-request
  point \<open>t0 + dt - 300 = 1200\<close>, and the pre-request timer is armed for 1200, with base 1000 and
  delta 200. The granularity enters the required level only: the delayed timeslot's priority
  counts towards it from \<open>t0 + dt - 300 - 10 = 1190\<close> on, not yet at 1189.
\<close>

theorem scenario_timer_at_1200:
  "nrf_802154_rsch_delayed_timeslot_request (scenario_platform 100) 1000 500 200
     (RSCH_PRIO_MAX (scenario_platform 100)) (nrf_802154_rsch_init static_storage) =
   Inr (True, scenario_armed) \<and>
   m_timer scenario_armed =
     \<lparr>timer_t0 = 1000, timer_dt = 500 - PREC_RAMP_UP_TIME,
      timer_callback = delayed_timeslot_prec_request_callback\<rparr> \<and>
   timer_target (m_timer scenario_armed) = 1200 \<and>
   timer_sched_time_is_in_future 100 1000 (500 - PREC_RAMP_UP_TIME) \<and>
   \<not> any_prec_should_be_requested_for_delayed_timeslot (scenario_platform 1189) scenario_armed \<and>
   any_prec_should_be_requested_for_delayed_timeslot (scenario_platform 1190) scenario_armed"
  by (simp add: scenario_request)
     (simp add: scenario_armed_def timer_target_def PREC_RAMP_UP_TIME_def
        timer_sched_time_is_in_future_def scenario_platform_def static_storage_def
        any_prec_should_be_requested_for_delayed_timeslot_def RSCH_PRIO_IDLE_def)

end
